theory Spec2Isabelle
  imports Complex_Main "HOL-Library.List_Lexorder" "HOL-Library.Char_ord" "HOL-Library.Multiset"
begin

section \<open>Heat-wave analysis scripts: grading, composite scores, grouped sums\<close>

text \<open>
  The scripts (\<^verbatim>\<open>heatwave_analysis_utf8.py\<close>, \<^verbatim>\<open>old_codes/*.py\<close>,
  \<^verbatim>\<open>250917_SampleCode.py\<close>) are straight-line pandas code. The embedding follows the
  calls they make: \<^verbatim>\<open>pd.cut\<close>, \<^verbatim>\<open>pd.qcut\<close>, \<^verbatim>\<open>pd.factorize\<close>,
  \<^verbatim>\<open>groupby(...)[...].sum()\<close>, column assignment on a data frame, and the arithmetic
  written in the scripts.

  Conventions.
  \<^item> A pandas float is a \<open>real option\<close>: \<open>None\<close> is NaN (a missing value),
    \<open>Some r\<close> a finite number. Arithmetic is exact: the rounding of binary floating point
    is not modelled. Where rounding can change an outcome (the interpolated quantile edges of
    \<^verbatim>\<open>pd.qcut\<close>), general statements are made for arbitrary edges, and the exact
    edges are evaluated only on columns where rounding leaves the grades as they are.
  \<^item> A label column (pandas Categorical, or a column of strings) is a
    \<open>string option list\<close>; \<open>None\<close> is the missing label NaN.
  \<^item> The Korean labels and column names of the scripts are written in English, in the order of
    the source.
  \<^item> A raised exception is \<open>Inl\<close> of a result \<open>py_error + 'a\<close>.
\<close>

subsection \<open>Errors and bin edges\<close>

datatype py_error = ValueError | TypeError | IndexError

text \<open>A bin edge of \<^verbatim>\<open>pd.cut\<close>: \<^verbatim>\<open>-float('inf')\<close>, a finite number, or \<^verbatim>\<open>float('inf')\<close>.\<close>

datatype edge = NegInf | Fin real | PosInf

fun edge_less :: "edge \<Rightarrow> edge \<Rightarrow> bool" where
  "edge_less NegInf NegInf = False"
| "edge_less NegInf _ = True"
| "edge_less (Fin a) (Fin b) = (a < b)"
| "edge_less (Fin a) PosInf = True"
| "edge_less (Fin a) NegInf = False"
| "edge_less PosInf _ = False"

text \<open>\<open>edge_below e v\<close>: the edge \<open>e\<close> is strictly less than the finite value \<open>v\<close>.\<close>

fun edge_below :: "edge \<Rightarrow> real \<Rightarrow> bool" where
  "edge_below NegInf v = True"
| "edge_below (Fin a) v = (a < v)"
| "edge_below PosInf v = False"

subsection \<open>The discomfort index\<close>

text \<open>
  \<^verbatim>\<open>0.81 * T + 0.01 * H * (0.99 * T - 14.3) + 46.3\<close>, as each of the four scripts writes
  it. Python parses it as \<open>((0.81 * T) + ((0.01 * H) * ((0.99 * T) - 14.3))) + 46.3\<close>.
\<close>

definition discomfort_utf8 :: "real \<Rightarrow> real \<Rightarrow> real" where
  \<comment> \<open>heatwave_analysis_utf8.py, lines 161-165\<close>
  "discomfort_utf8 T H = ((0.81 * T) + ((0.01 * H) * ((0.99 * T) - 14.3))) + 46.3"

definition discomfort_korean :: "real \<Rightarrow> real \<Rightarrow> real" where
  \<comment> \<open>old_codes/final_analysis_korean.py, lines 129-133\<close>
  "discomfort_korean T H = ((0.81 * T) + ((0.01 * H) * ((0.99 * T) - 14.3))) + 46.3"

definition discomfort_final :: "real \<Rightarrow> real \<Rightarrow> real" where
  \<comment> \<open>old_codes/data_processing_final.py, lines 125-129\<close>
  "discomfort_final T H = ((0.81 * T) + ((0.01 * H) * ((0.99 * T) - 14.3))) + 46.3"

definition discomfort_pipeline :: "real \<Rightarrow> real \<Rightarrow> real" where
  \<comment> \<open>old_codes/data_processing_pipeline.py, lines 171-173\<close>
  "discomfort_pipeline T H = ((0.81 * T) + ((0.01 * H) * ((0.99 * T) - 14.3))) + 46.3"

text \<open>The formula of the claim, written from its words, to compare the scripts with.\<close>

definition discomfort_spec :: "real \<Rightarrow> real \<Rightarrow> real" where
  "discomfort_spec T H = 0.81 * T + 0.01 * H * (0.99 * T - 14.3) + 46.3"

subsection \<open>Helpers shared by the pandas operations\<close>

text \<open>\<^verbatim>\<open>dropna\<close>: the non-missing values, in order.\<close>

fun dropna :: "'a option list \<Rightarrow> 'a list" where
  "dropna [] = []"
| "dropna (None # xs) = dropna xs"
| "dropna (Some v # xs) = v # dropna xs"

text \<open>Position of the first occurrence of a value in a list (0-based).\<close>

fun index_of :: "'a list \<Rightarrow> 'a \<Rightarrow> nat option" where
  "index_of [] a = None"
| "index_of (x # xs) a = (if x = a then Some 0 else map_option Suc (index_of xs a))"

text \<open>
  \<^verbatim>\<open>algos.unique\<close>: the distinct values in order of first appearance (a hash table filled
  from left to right; \<open>seen\<close> is the table so far).
\<close>

fun unique_loop :: "'a list \<Rightarrow> 'a list \<Rightarrow> 'a list" where
  "unique_loop seen [] = seen"
| "unique_loop seen (x # xs) =
     (if x \<in> set seen then unique_loop seen xs else unique_loop (seen @ [x]) xs)"

definition unique :: "'a list \<Rightarrow> 'a list" where
  "unique xs = unique_loop [] xs"

subsection \<open>pd.cut and the shared binning step\<close>

text \<open>
  \<^verbatim>\<open>bins.searchsorted(x, side='left')\<close> on increasing bins: the number of edges strictly
  below the value.
\<close>

definition searchsorted_left :: "edge list \<Rightarrow> real \<Rightarrow> nat" where
  "searchsorted_left bins v = length (takeWhile (\<lambda>b. edge_below b v) bins)"

text \<open>
  One value through \<^verbatim>\<open>_bins_to_cuts\<close>: \<^verbatim>\<open>ids = bins.searchsorted(x, side='left')\<close>;
  with \<^verbatim>\<open>include_lowest\<close>, \<^verbatim>\<open>ids[x == bins[0]] = 1\<close>; the value is missing when it
  is NaN, or \<^verbatim>\<open>ids == len(bins)\<close>, or \<^verbatim>\<open>ids == 0\<close>; otherwise its label is
  \<^verbatim>\<open>labels[ids - 1]\<close>. So the intervals are open on the left and closed on the right.
\<close>

definition cut_value :: "edge list \<Rightarrow> 'l list \<Rightarrow> bool \<Rightarrow> real option \<Rightarrow> 'l option" where
  "cut_value bins labels include_lowest x =
     (case x of
        None \<Rightarrow> None
      | Some v \<Rightarrow>
          (let ids0 = searchsorted_left bins v;
               ids = (if include_lowest \<and> take 1 bins = [Fin v] then 1 else ids0)
           in if ids = length bins \<or> ids = 0 then None else Some (labels ! (ids - 1))))"

text \<open>
  \<^verbatim>\<open>_bins_to_cuts(x, bins, labels=..., include_lowest=..., duplicates=...)\<close>.
  Repeated edges raise ValueError under \<^verbatim>\<open>duplicates='raise'\<close> and are dropped under
  \<^verbatim>\<open>duplicates='drop'\<close> (pandas leaves a two-edge list alone). Then the labels are checked:
  they must be unique, and "Bin labels must be one fewer than the number of bin edges",
  else ValueError. \<open>drop_duplicates\<close> is \<^verbatim>\<open>duplicates == 'drop'\<close>.
\<close>

definition bins_to_cuts ::
  "real option list \<Rightarrow> edge list \<Rightarrow> 'l list \<Rightarrow> bool \<Rightarrow> bool \<Rightarrow> py_error + 'l option list" where
  "bins_to_cuts x bins labels include_lowest drop_duplicates =
     (let unique_bins = unique bins;
          repeated = (length unique_bins < length bins \<and> length bins \<noteq> 2)
      in if repeated \<and> \<not> drop_duplicates then Inl ValueError
         else
           (let bins' = (if repeated then unique_bins else bins)
            in if \<not> distinct labels then Inl ValueError
               else if length labels + 1 \<noteq> length bins' then Inl ValueError
               else Inr (map (cut_value bins' labels include_lowest) x)))"

text \<open>
  \<^verbatim>\<open>pd.cut(x, bins=[...], labels=[...])\<close> with a list of edges: "bins must increase
  monotonically" (\<^verbatim>\<open>(np.diff(bins) < 0).any()\<close> raises ValueError), then
  \<^verbatim>\<open>_bins_to_cuts\<close> with the defaults \<^verbatim>\<open>right=True\<close>,
  \<^verbatim>\<open>include_lowest=False\<close>, \<^verbatim>\<open>duplicates='raise'\<close>.
\<close>

definition pd_cut :: "real option list \<Rightarrow> edge list \<Rightarrow> 'l list \<Rightarrow> py_error + 'l option list" where
  "pd_cut x bins labels =
     (if \<not> successively (\<lambda>a b. \<not> edge_less b a) bins then Inl ValueError
      else bins_to_cuts x bins labels False False)"

subsection \<open>The grade scales of the scripts\<close>

text \<open>Heat-wave risk: \<^verbatim>\<open>bins=[-float('inf'), 25, 28, 31, 35, float('inf')]\<close>.\<close>

definition heat_bins :: "edge list" where
  "heat_bins = [NegInf, Fin 25, Fin 28, Fin 31, Fin 35, PosInf]"

definition heat_labels :: "string list" where
  "heat_labels = [''safe'', ''caution'', ''warning'', ''danger'', ''extreme_danger'']"

text \<open>Discomfort-index grade: \<^verbatim>\<open>bins=[0, 68, 75, 80, 85, float('inf')]\<close>.\<close>

definition discomfort_bins :: "edge list" where
  "discomfort_bins = [Fin 0, Fin 68, Fin 75, Fin 80, Fin 85, PosInf]"

definition discomfort_labels :: "string list" where
  "discomfort_labels =
     [''comfortable'', ''normal'', ''slightly_unpleasant'', ''unpleasant'', ''very_unpleasant'']"

text \<open>Family-structure index: \<^verbatim>\<open>bins=[0, 2.0, 2.5, 3.0, float('inf')]\<close>.\<close>

definition family_bins :: "edge list" where
  "family_bins = [Fin 0, Fin 2.0, Fin 2.5, Fin 3.0, PosInf]"

definition family_labels :: "string list" where
  "family_labels = [''single_person'', ''small_family'', ''ordinary_family'', ''large_family'']"

text \<open>Ultraviolet risk: \<^verbatim>\<open>bins=[0, 2, 5, 7, 10, float('inf')]\<close>.\<close>

definition uv_bins :: "edge list" where
  "uv_bins = [Fin 0, Fin 2, Fin 5, Fin 7, Fin 10, PosInf]"

definition uv_labels :: "string list" where
  "uv_labels = [''low'', ''moderate'', ''high'', ''very_high'', ''danger'']"

text \<open>Population-density grade, the labels given to \<^verbatim>\<open>pd.qcut(..., q=5, ...)\<close>.\<close>

definition density_labels :: "string list" where
  "density_labels = [''very_low'', ''low'', ''medium'', ''high'', ''very_high'']"

text \<open>
  The position of a grade in its scale's label sequence, counted from 1; a missing grade has
  position 0 (the categorical code \<open>-1\<close>, plus one).
\<close>

definition label_rank :: "'l list \<Rightarrow> 'l option \<Rightarrow> nat" where
  "label_rank labels g =
     (case g of
        None \<Rightarrow> 0
      | Some l \<Rightarrow> (case index_of labels l of None \<Rightarrow> 0 | Some i \<Rightarrow> i + 1))"

subsection \<open>pd.qcut\<close>

text \<open>
  The binning step of \<^verbatim>\<open>pd.qcut(x, q, labels=labels, duplicates='drop')\<close> for given
  quantile edges: \<^verbatim>\<open>_bins_to_cuts\<close> with \<^verbatim>\<open>include_lowest=True\<close> and
  \<^verbatim>\<open>duplicates='drop'\<close>. The edges are whatever the quantile computation returned.
\<close>

definition qcut_from_edges ::
  "real list \<Rightarrow> real option list \<Rightarrow> 'l list \<Rightarrow> py_error + 'l option list" where
  "qcut_from_edges edges x labels = bins_to_cuts x (map Fin edges) labels True True"

text \<open>
  \<^verbatim>\<open>Series.quantile\<close> with linear interpolation, on the sorted non-missing values \<open>s\<close>
  (not empty): the position \<open>p * (n - 1)\<close> lies between two order statistics. This is the
  exact value. pandas computes it in binary floating point, where
  \<^verbatim>\<open>np.linspace(0, 1, 6)[3]\<close> is \<open>0.6000000000000001\<close>, so an interior edge of the
  program can lie one rounding step away from the exact one. The first edge is the least
  value and the last edge the greatest value, in both.
\<close>

definition quantile :: "real list \<Rightarrow> real \<Rightarrow> real" where
  "quantile s p =
     (let n = length s;
          pos = p * real (n - 1);
          lo = nat \<lfloor>pos\<rfloor>;
          hi = min (lo + 1) (n - 1)
      in s ! lo + (s ! hi - s ! lo) * (pos - real lo))"

text \<open>\<^verbatim>\<open>np.linspace(0, 1, q + 1)\<close>.\<close>

definition linspace01 :: "nat \<Rightarrow> real list" where
  "linspace01 q = map (\<lambda>i. real i / real q) [0..<q + 1]"

definition quantile_edges :: "real option list \<Rightarrow> nat \<Rightarrow> real list" where
  "quantile_edges x q = map (quantile (sort (dropna x))) (linspace01 q)"

text \<open>
  \<^verbatim>\<open>pd.qcut(x, q=q, labels=labels, duplicates='drop')\<close>: the edges are the quantiles of the
  non-missing values, and the binning step runs with \<^verbatim>\<open>include_lowest=True\<close>. When no
  value is present every quantile is NaN: the \<open>q + 1\<close> edges collapse to one (two stay two),
  the label check runs on that count, and every grade is missing.
\<close>

definition qcut :: "real option list \<Rightarrow> nat \<Rightarrow> 'l list \<Rightarrow> py_error + 'l option list" where
  "qcut x q labels =
     (if dropna x = [] then
        (if \<not> distinct labels then Inl ValueError
         else if length labels + 1 \<noteq> (if q + 1 = 2 then 2 else 1) then Inl ValueError
         else Inr (map (\<lambda>_. None) x))
      else qcut_from_edges (quantile_edges x q) x labels)"

subsection \<open>pd.factorize and the composite scores\<close>

text \<open>
  \<^verbatim>\<open>pd.factorize(values)[0]\<close>: each value's code is the position of its first
  appearance among the distinct values met so far; a missing value has code \<open>-1\<close>.
  \<open>uniques\<close> is the hash table so far.
\<close>

fun factorize_loop :: "'a list \<Rightarrow> 'a option list \<Rightarrow> int list" where
  "factorize_loop uniques [] = []"
| "factorize_loop uniques (None # xs) = (- 1) # factorize_loop uniques xs"
| "factorize_loop uniques (Some a # xs) =
     (case index_of uniques a of
        Some i \<Rightarrow> int i # factorize_loop uniques xs
      | None \<Rightarrow> int (length uniques) # factorize_loop (uniques @ [a]) xs)"

definition factorize_codes :: "'a option list \<Rightarrow> int list" where
  "factorize_codes x = factorize_loop [] x"



text \<open>
  The composite computation as the specification words it, with the factor 20 of every
  instance: the sum of rank times weight, times 20. It is the yardstick the expressions of the
  scripts are compared with; the scripts themselves have no function that takes weights.
\<close>

definition composite :: "real list \<Rightarrow> int list \<Rightarrow> real" where
  "composite weights scores =
     sum_list (map (\<lambda>(s, w). real_of_int s * w) (zip scores weights)) * 20"



text \<open>
  \<^verbatim>\<open>density_score = pd.factorize(density)[0] + 1\<close>, the same for the family index, and
  the score column \<^verbatim>\<open>(density_score * 0.6 + family_score * 0.4) * 20\<close>, row by row.
\<close>

definition vulnerability_scores :: "string option list \<Rightarrow> string option list \<Rightarrow> real list" where
  "vulnerability_scores density family =
     (let density_score = map (\<lambda>c. c + 1) (factorize_codes density);
          family_score = map (\<lambda>c. c + 1) (factorize_codes family)
      in map (\<lambda>(d, f). (real_of_int d * 0.6 + real_of_int f * 0.4) * 20)
           (zip density_score family_score))"

text \<open>
  The environmental-risk score of \<^verbatim>\<open>old_codes/data_processing_final.py\<close> and
  \<^verbatim>\<open>old_codes/final_analysis_korean.py\<close>, from the three grade columns.
\<close>

definition environment_scores ::
  "string option list \<Rightarrow> string option list \<Rightarrow> string option list \<Rightarrow> real list" where
  "environment_scores heat comfort uv =
     (let temp_score = map (\<lambda>c. c + 1) (factorize_codes heat);
          comfort_score = map (\<lambda>c. c + 1) (factorize_codes comfort);
          uv_score = map (\<lambda>c. c + 1) (factorize_codes uv)
      in map (\<lambda>(t, c, u). (real_of_int t * 0.5 + real_of_int c * 0.3 + real_of_int u * 0.2) * 20)
           (zip temp_score (zip comfort_score uv_score)))"

text \<open>
  The score the claim describes, written from its words: 20 times the weighted sum of the
  positions of the two grades in their label sequences.
\<close>

definition rank_score_spec :: "string option \<Rightarrow> string option \<Rightarrow> real" where
  "rank_score_spec density family =
     20 * (0.6 * real (label_rank density_labels density)
           + 0.4 * real (label_rank family_labels family))"

text \<open>
  The columns computed by \<^verbatim>\<open>HeatWaveAnalysisFixed.analyze_environmental_risk\<close>
  (old_codes/data_processing_final.py, lines 116-149) from the temperature, humidity and
  ultraviolet columns: three grades by \<^verbatim>\<open>pd.cut\<close>, the discomfort index in between
  (NaN when the temperature or the humidity is NaN), and the score column.
\<close>

definition discomfort_column :: "real option list \<Rightarrow> real option list \<Rightarrow> real option list" where
  "discomfort_column temp humi =
     map (\<lambda>(t, h). case t of None \<Rightarrow> None
                     | Some T \<Rightarrow> (case h of None \<Rightarrow> None | Some H \<Rightarrow> Some (discomfort_final T H)))
       (zip temp humi)"

definition environmental_risk_scores ::
  "real option list \<Rightarrow> real option list \<Rightarrow> real option list \<Rightarrow> py_error + real list" where
  "environmental_risk_scores temp humi uv =
     (case pd_cut temp heat_bins heat_labels of
        Inl e \<Rightarrow> Inl e
      | Inr heat \<Rightarrow>
     (case pd_cut (discomfort_column temp humi) discomfort_bins discomfort_labels of
        Inl e \<Rightarrow> Inl e
      | Inr comfort \<Rightarrow>
     (case pd_cut uv uv_bins uv_labels of
        Inl e \<Rightarrow> Inl e
      | Inr uv_risk \<Rightarrow> Inr (environment_scores heat comfort uv_risk))))"

subsection \<open>The population table and analyze_population_vulnerability\<close>

text \<open>
  A data frame is the list of its named columns, in order. A column is numeric or holds labels
  (the region name, a categorical grade).
\<close>

datatype column = NumCol "real option list" | CatCol "string option list"

type_synonym table = "(string \<times> column) list"

text \<open>\<^verbatim>\<open>df.iloc[:, i]\<close>: the column at position \<open>i\<close>, IndexError when out of bounds.\<close>

definition iloc :: "table \<Rightarrow> nat \<Rightarrow> py_error + column" where
  "iloc df i = (if i < length df then Inr (snd (df ! i)) else Inl IndexError)"

text \<open>
  \<^verbatim>\<open>df[name] = col\<close>: a column of that name is replaced where it stands, otherwise the
  column is appended.
\<close>

definition assign :: "table \<Rightarrow> string \<Rightarrow> column \<Rightarrow> table" where
  "assign df name col =
     (if name \<in> set (map fst df)
      then map (\<lambda>(n, c). if n = name then (n, col) else (n, c)) df
      else df @ [(name, col)])"

text \<open>
  \<^verbatim>\<open>Series.sum()\<close>: the sum of the non-missing numbers. On a column of labels the
  strings are concatenated; a missing entry among them counts as 0 and the addition raises
  TypeError; with no label at all the sum is 0.
\<close>

datatype sum_value = NumSum real | TextSum string

definition series_sum :: "column \<Rightarrow> py_error + sum_value" where
  "series_sum c =
     (case c of
        NumCol xs \<Rightarrow> Inr (NumSum (sum_list (dropna xs)))
      | CatCol xs \<Rightarrow>
          if dropna xs = [] then Inr (NumSum 0)
          else if None \<in> set xs then Inl TypeError
          else Inr (TextSum (concat (dropna xs))))"

text \<open>
  \<^verbatim>\<open>Series.mean()\<close>: the mean of the non-missing numbers, NaN when there is none;
  TypeError on labels.
\<close>

definition series_mean :: "column \<Rightarrow> py_error + real option" where
  "series_mean c =
     (case c of
        NumCol xs \<Rightarrow>
          Inr (if dropna xs = [] then None
               else Some (sum_list (dropna xs) / real (length (dropna xs))))
      | CatCol xs \<Rightarrow> if dropna xs = [] then Inr None else Inl TypeError)"

text \<open>
  The format \<^verbatim>\<open>{total_population:,}\<close> of line 82: fine for a number, ValueError for a
  string.
\<close>

definition format_thousands :: "sum_value \<Rightarrow> py_error + unit" where
  "format_thousands t = (case t of NumSum _ \<Rightarrow> Inr () | TextSum _ \<Rightarrow> Inl ValueError)"

text \<open>
  The values a binning call (\<^verbatim>\<open>pd.qcut\<close>, \<^verbatim>\<open>pd.cut\<close>) works on: the numbers of a
  numeric column; a column of labels raises TypeError, unless it holds no label (then all its
  values are missing).
\<close>

definition numeric :: "column \<Rightarrow> py_error + real option list" where
  "numeric c =
     (case c of
        NumCol xs \<Rightarrow> Inr xs
      | CatCol xs \<Rightarrow> if dropna xs = [] then Inr (map (\<lambda>_. None) xs) else Inl TypeError)"

definition density_name :: string where
  "density_name = ''population_density_grade''"

definition family_name :: string where
  "family_name = ''family_structure_index''"

definition score_name :: string where
  "score_name = ''vulnerability_score''"

text \<open>
  \<^verbatim>\<open>HeatWaveAnalysisUTF8.analyze_population_vulnerability\<close>
  (heatwave_analysis_utf8.py, lines 73-115) on \<^verbatim>\<open>self.pop_data\<close>. The result is the
  exception raised, if any, and \<^verbatim>\<open>self.pop_data\<close> as the call leaves it. The printing
  and \<^verbatim>\<open>nlargest\<close> read the table only.
  \<^item> line 78: \<^verbatim>\<open>iloc[:, 3].sum()\<close>; line 79: \<^verbatim>\<open>iloc[:, 5].mean()\<close>;
  \<^item> line 82: the total is printed with the format \<^verbatim>\<open>{:,}\<close>;
  \<^item> lines 86-91: the density grade by \<^verbatim>\<open>pd.qcut\<close> of \<^verbatim>\<open>iloc[:, 3]\<close>, stored in
    the table;
  \<^item> lines 94-98: the family-structure index by \<^verbatim>\<open>pd.cut\<close> of \<^verbatim>\<open>iloc[:, 5]\<close>
    (read after the first assignment), stored in the table;
  \<^item> lines 101-103: the score from the two columns just stored, stored in the table.
\<close>

definition analyze_population_vulnerability :: "table \<Rightarrow> py_error option \<times> table" where
  "analyze_population_vulnerability pop_data =
     (case iloc pop_data 3 of
        Inl e \<Rightarrow> (Some e, pop_data)
      | Inr c3 \<Rightarrow>
     (case series_sum c3 of
        Inl e \<Rightarrow> (Some e, pop_data)
      | Inr total_population \<Rightarrow>
     (case iloc pop_data 5 of
        Inl e \<Rightarrow> (Some e, pop_data)
      | Inr c5 \<Rightarrow>
     (case series_mean c5 of
        Inl e \<Rightarrow> (Some e, pop_data)
      | Inr avg_household \<Rightarrow>
     (case format_thousands total_population of
        Inl e \<Rightarrow> (Some e, pop_data)
      | Inr _ \<Rightarrow>
     (case numeric c3 of
        Inl e \<Rightarrow> (Some e, pop_data)
      | Inr population \<Rightarrow>
     (case qcut population 5 density_labels of
        Inl e \<Rightarrow> (Some e, pop_data)
      | Inr density \<Rightarrow>
         (let pop_data1 = assign pop_data density_name (CatCol density)
          in
     (case iloc pop_data1 5 of
        Inl e \<Rightarrow> (Some e, pop_data1)
      | Inr c5' \<Rightarrow>
     (case numeric c5' of
        Inl e \<Rightarrow> (Some e, pop_data1)
      | Inr avg \<Rightarrow>
     (case pd_cut avg family_bins family_labels of
        Inl e \<Rightarrow> (Some e, pop_data1)
      | Inr family \<Rightarrow>
         (let pop_data2 = assign pop_data1 family_name (CatCol family);
              score = vulnerability_scores density family
          in (None, assign pop_data2 score_name (NumCol (map Some score)))))))))))))))"

text \<open>
  The rows (observations) of a table: each row lists its fields, a column name with the cell
  of that column.
\<close>

datatype cell = NumCell "real option" | CatCell "string option"

definition cells :: "column \<Rightarrow> cell list" where
  "cells c = (case c of NumCol xs \<Rightarrow> map NumCell xs | CatCol xs \<Rightarrow> map CatCell xs)"

definition rows_of :: "table \<Rightarrow> (string \<times> cell) list list" where
  "rows_of df = transpose (map (\<lambda>(n, c). map (Pair n) (cells c)) df)"

text \<open>
  The scores the analysis assigns to the rows of a table that has no score column yet: the
  column it stores under the score's name when it returns; nothing when it raises.
\<close>

definition assigned_scores :: "table \<Rightarrow> real option list option" where
  "assigned_scores df =
     (if score_name \<in> set (map fst df) then None
      else
        (case analyze_population_vulnerability df of
           (Some e, df') \<Rightarrow> None
         | (None, df') \<Rightarrow>
             (case map_of df' score_name of
                Some (NumCol xs) \<Rightarrow> Some xs
              | _ \<Rightarrow> None)))"

subsection \<open>Example tables\<close>

text \<open>
  Population tables with the six leading columns of the population file; positions 3 and 5 are
  the total population and the average household size. \<open>batch_b\<close> holds the rows of
  \<open>batch_a\<close> in the other order. In \<open>batch_c\<close> the first and the third region have the
  same family-structure grade. In \<open>batch_repeated\<close> five of six regions have the same
  population.
\<close>

definition batch_a :: table where
  "batch_a =
     [(''base_month'', NumCol [Some 202507, Some 202507]),
      (''region_name'', CatCol [Some ''Jongno-gu'', Some ''Jung-gu'']),
      (''region_code'', NumCol [Some 11110, Some 11140]),
      (''total_population'', NumCol [Some 1000, Some 2000]),
      (''households'', NumCol [Some 526, Some 741]),
      (''average_household_size'', NumCol [Some 1.9, Some 2.7])]"

definition batch_b :: table where
  "batch_b =
     [(''base_month'', NumCol [Some 202507, Some 202507]),
      (''region_name'', CatCol [Some ''Jung-gu'', Some ''Jongno-gu'']),
      (''region_code'', NumCol [Some 11140, Some 11110]),
      (''total_population'', NumCol [Some 2000, Some 1000]),
      (''households'', NumCol [Some 741, Some 526]),
      (''average_household_size'', NumCol [Some 2.7, Some 1.9])]"

definition batch_c :: table where
  "batch_c =
     [(''base_month'', NumCol [Some 202507, Some 202507, Some 202507]),
      (''region_name'', CatCol [Some ''Jongno-gu'', Some ''Jung-gu'', Some ''Yongsan-gu'']),
      (''region_code'', NumCol [Some 11110, Some 11140, Some 11170]),
      (''total_population'', NumCol [Some 1000, Some 2000, Some 3000]),
      (''households'', NumCol [Some 526, Some 741, Some 1667]),
      (''average_household_size'', NumCol [Some 1.9, Some 2.7, Some 1.8])]"

definition batch_repeated :: table where
  "batch_repeated =
     [(''base_month'', NumCol (replicate 6 (Some 202507))),
      (''region_name'',
         CatCol [Some ''A'', Some ''B'', Some ''C'', Some ''D'', Some ''E'', Some ''F'']),
      (''region_code'', NumCol [Some 1, Some 2, Some 3, Some 4, Some 5, Some 6]),
      (''total_population'',
         NumCol [Some 100, Some 100, Some 100, Some 100, Some 100, Some 200]),
      (''households'', NumCol [Some 50, Some 50, Some 50, Some 50, Some 50, Some 80]),
      (''average_household_size'',
         NumCol [Some 2, Some 2, Some 2, Some 2, Some 2, Some 2.5])]"

subsection \<open>groupby(...)[...].sum()\<close>

text \<open>
  \<^verbatim>\<open>df.groupby(key)[value].sum()\<close> with the defaults \<^verbatim>\<open>sort=True\<close>,
  \<^verbatim>\<open>dropna=True\<close>: rows with a missing key are left out, the group keys are sorted, and
  each group's sum skips missing values. A row is its key and its value.
\<close>

definition groupby_sum :: "('k::linorder option \<times> real option) list \<Rightarrow> ('k \<times> real) list" where
  "groupby_sum rows =
     (let keys = sort (unique (dropna (map fst rows)))
      in map (\<lambda>k. (k, sum_list (dropna (map snd (filter (\<lambda>r. fst r = Some k) rows))))) keys)"

text \<open>The keys in the order in which the rows first show them.\<close>

definition first_seen_keys :: "('k option \<times> real option) list \<Rightarrow> 'k list" where
  "first_seen_keys rows = unique (dropna (map fst rows))"

section \<open>Properties\<close>

subsection \<open>Auxiliary facts\<close>

lemma set_unique_loop: "set (unique_loop seen xs) = set seen \<union> set xs"
  by (induction xs arbitrary: seen) auto

lemma distinct_unique_loop: "distinct seen \<Longrightarrow> distinct (unique_loop seen xs)"
  by (induction xs arbitrary: seen) auto

lemma set_unique: "set (unique xs) = set xs"
  by (simp add: unique_def set_unique_loop)

lemma distinct_unique: "distinct (unique xs)"
  by (simp add: unique_def distinct_unique_loop)

lemma unique_loop_distinct: "distinct (seen @ xs) \<Longrightarrow> unique_loop seen xs = seen @ xs"
  by (induction xs arbitrary: seen) auto

lemma unique_distinct: "distinct xs \<Longrightarrow> unique xs = xs"
  by (simp add: unique_def unique_loop_distinct)

lemma set_dropna: "set (dropna xs) = {v. Some v \<in> set xs}"
  by (induction xs rule: dropna.induct) auto

lemma edge_below_mono: "edge_below b v1 \<Longrightarrow> v1 \<le> v2 \<Longrightarrow> edge_below b v2"
  by (cases b) auto

lemma searchsorted_left_mono:
  "v1 \<le> v2 \<Longrightarrow> searchsorted_left bins v1 \<le> searchsorted_left bins v2"
  unfolding searchsorted_left_def
  by (induction bins) (auto dest: edge_below_mono)

lemma searchsorted_left_le: "searchsorted_left bins v \<le> length bins"
  by (simp add: searchsorted_left_def length_takeWhile_le)

lemma takeWhile_stops_before_last:
  "xs \<noteq> [] \<Longrightarrow> \<not> P (last xs) \<Longrightarrow> length (takeWhile P xs) < length xs"
  by (induction xs) (auto split: if_splits)

lemma index_of_nth: "distinct xs \<Longrightarrow> i < length xs \<Longrightarrow> index_of xs (xs ! i) = Some i"
proof (induction xs arbitrary: i)
  case Nil
  then show ?case by simp
next
  case (Cons x xs)
  then show ?case by (cases i) auto
qed

text \<open>The rank of a grade given by \<^verbatim>\<open>pd.cut\<close> is the index found by the search.\<close>

lemma rank_cut_value:
  assumes "distinct labels" "length labels + 1 = length bins"
  shows "label_rank labels (cut_value bins labels False (Some v)) =
     (if searchsorted_left bins v = length bins then 0 else searchsorted_left bins v)"
proof (cases "searchsorted_left bins v = length bins \<or> searchsorted_left bins v = 0")
  case True
  then show ?thesis by (auto simp: cut_value_def label_rank_def)
next
  case False
  with searchsorted_left_le [of bins v] assms
  have "searchsorted_left bins v - 1 < length labels" by linarith
  with False assms show ?thesis
    by (simp add: cut_value_def label_rank_def index_of_nth)
qed

lemma pd_cut_InrD:
  assumes "pd_cut x bins labels = Inr g"
  shows "distinct labels" "length labels + 1 = length bins"
    "g = map (cut_value bins labels False) x"
  using assms
  by (auto simp: pd_cut_def bins_to_cuts_def Let_def split: if_splits)

text \<open>\<^verbatim>\<open>pd.cut\<close> accepts each of the four fixed scales, whatever the column.\<close>

lemma pd_cut_heat:
  "pd_cut x heat_bins heat_labels = Inr (map (cut_value heat_bins heat_labels False) x)"
  by (simp add: pd_cut_def bins_to_cuts_def heat_bins_def heat_labels_def unique_def)

lemma pd_cut_discomfort:
  "pd_cut x discomfort_bins discomfort_labels =
     Inr (map (cut_value discomfort_bins discomfort_labels False) x)"
  by (simp add: pd_cut_def bins_to_cuts_def discomfort_bins_def discomfort_labels_def unique_def)

lemma pd_cut_family:
  "pd_cut x family_bins family_labels = Inr (map (cut_value family_bins family_labels False) x)"
  by (simp add: pd_cut_def bins_to_cuts_def family_bins_def family_labels_def unique_def)

lemma pd_cut_uv:
  "pd_cut x uv_bins uv_labels = Inr (map (cut_value uv_bins uv_labels False) x)"
  by (simp add: pd_cut_def bins_to_cuts_def uv_bins_def uv_labels_def unique_def)

lemma heat_graded:
  "cut_value heat_bins heat_labels False (Some v) \<in> Some ` set heat_labels"
  by (simp add: cut_value_def searchsorted_left_def heat_bins_def heat_labels_def)

lemma discomfort_graded:
  "0 < v \<Longrightarrow>
   cut_value discomfort_bins discomfort_labels False (Some v) \<in> Some ` set discomfort_labels"
  by (simp add: cut_value_def searchsorted_left_def discomfort_bins_def discomfort_labels_def)

lemma family_graded:
  "0 < v \<Longrightarrow> cut_value family_bins family_labels False (Some v) \<in> Some ` set family_labels"
  by (simp add: cut_value_def searchsorted_left_def family_bins_def family_labels_def)

lemma uv_graded:
  "0 < v \<Longrightarrow> cut_value uv_bins uv_labels False (Some v) \<in> Some ` set uv_labels"
  by (simp add: cut_value_def searchsorted_left_def uv_bins_def uv_labels_def)

lemma below_zero_ungraded:
  "w < 0 \<Longrightarrow>
   cut_value discomfort_bins discomfort_labels False (Some w) = None
   \<and> cut_value family_bins family_labels False (Some w) = None
   \<and> cut_value uv_bins uv_labels False (Some w) = None"
  by (simp add: cut_value_def searchsorted_left_def discomfort_bins_def family_bins_def
      uv_bins_def)

lemma group_sum_as_spec:
  "sum_list (dropna (map snd (filter (\<lambda>r. fst r = Some k) rows)))
   = (\<Sum>(k', v) \<leftarrow> rows. if k' = Some k then (case v of Some r \<Rightarrow> r | None \<Rightarrow> 0) else 0)"
proof (induction rows)
  case Nil
  then show ?case by simp
next
  case (Cons r rows)
  obtain k' v where r: "r = (k', v)" by (cases r)
  show ?case using Cons by (cases v) (simp_all add: r)
qed

lemma map_of_keyed:
  "map_of (map (\<lambda>k. (k, f k)) ks) k = (if k \<in> set ks then Some (f k) else None)"
  by (induction ks) auto

text \<open>Facts about the binning step of \<^verbatim>\<open>pd.qcut\<close>.\<close>

lemma distinct_map_Fin: "distinct (map Fin es) = distinct es"
  by (simp add: distinct_map inj_on_def)

lemma searchsorted_left_pos:
  "bins \<noteq> [] \<Longrightarrow> edge_below (hd bins) v \<Longrightarrow> 0 < searchsorted_left bins v"
  by (cases bins) (simp_all add: searchsorted_left_def)

lemma qcut_from_edges_accepts:
  assumes "distinct edges" "length edges = length labels + 1" "distinct labels"
  shows "qcut_from_edges edges x labels = Inr (map (cut_value (map Fin edges) labels True) x)"
proof -
  have "unique (map Fin edges) = map Fin edges"
    using assms(1) by (simp add: unique_distinct distinct_map_Fin)
  with assms(2,3) show ?thesis
    by (simp add: qcut_from_edges_def bins_to_cuts_def Let_def)
qed

lemma cut_value_in_range:
  assumes "2 \<le> length edges" "length edges = length labels + 1"
    and "hd edges \<le> v" "v \<le> last edges"
  shows "cut_value (map Fin edges) labels True (Some v) \<in> Some ` set labels"
proof -
  let ?bins = "map Fin edges"
  have ne: "edges \<noteq> []" using assms(1) by auto
  have lne: "labels \<noteq> []" using assms(1,2) by auto
  then have l0: "labels ! 0 \<in> set labels" by simp
  have hd: "take 1 ?bins = [Fin (hd edges)]" using ne by (cases edges) simp_all
  show ?thesis
  proof (cases "v = hd edges")
    case True
    with hd assms(2) l0 lne show ?thesis by (simp add: cut_value_def Let_def)
  next
    case False
    with assms(3) have below: "edge_below (hd ?bins) v" using ne by (simp add: hd_map)
    have pos: "0 < searchsorted_left ?bins v"
      using ne below by (intro searchsorted_left_pos) simp_all
    have "\<not> edge_below (last ?bins) v" using assms(4) ne by (simp add: last_map)
    then have "length (takeWhile (\<lambda>b. edge_below b v) ?bins) < length ?bins"
      using ne by (intro takeWhile_stops_before_last) simp_all
    then have lt: "searchsorted_left ?bins v < length ?bins"
      by (simp add: searchsorted_left_def)
    then have "searchsorted_left ?bins v - 1 < length labels"
      using pos assms(2) by simp
    with False hd pos lt show ?thesis
      by (simp add: cut_value_def Let_def)
  qed
qed

text \<open>Facts about column assignment.\<close>

lemma assign_nth:
  "i < length df \<Longrightarrow> fst (df ! i) \<noteq> name \<Longrightarrow> assign df name col ! i = df ! i"
  by (auto simp: assign_def nth_append split: prod.splits)

lemma assign_fst_nth: "i < length df \<Longrightarrow> fst (assign df name col ! i) = fst (df ! i)"
  by (auto simp: assign_def nth_append split: prod.splits)

lemma length_assign: "i < length df \<Longrightarrow> i < length (assign df name col)"
  by (auto simp: assign_def)

lemma assign_has: "name \<in> fst ` set (assign df name col)"
  by (force simp: assign_def)

lemma assign_keeps: "n \<in> fst ` set df \<Longrightarrow> n \<in> fst ` set (assign df name col)"
  by (force simp: assign_def)

lemma assign_names:
  "map fst (assign df name col)
     = map fst df @ (if name \<in> set (map fst df) then [] else [name])"
  by (auto simp: assign_def split: prod.splits)

lemma assign_named:
  "j < length (assign df name col) \<Longrightarrow> fst (assign df name col ! j) = name
   \<Longrightarrow> snd (assign df name col ! j) = col"
  by (auto simp: assign_def nth_append split: prod.splits if_splits)

lemma assign_other:
  "j < length (assign df name col) \<Longrightarrow> fst (assign df name col ! j) \<noteq> name
   \<Longrightarrow> j < length df \<and> assign df name col ! j = df ! j"
  by (auto simp: assign_def nth_append split: prod.splits if_splits)

lemma names_distinct:
  "density_name \<noteq> family_name" "density_name \<noteq> score_name" "family_name \<noteq> score_name"
  by (simp_all add: density_name_def family_name_def score_name_def)

text \<open>The table after the three assignments of the analysis.\<close>

lemma three_assignments:
  fixes df :: table and d f s :: column
  defines "df' \<equiv> assign (assign (assign df density_name d) family_name f) score_name s"
  shows "map fst df'
      = map fst df @ filter (\<lambda>n. n \<notin> set (map fst df)) [density_name, family_name, score_name]"
    and "j < length df' \<Longrightarrow> fst (df' ! j) = density_name \<Longrightarrow> snd (df' ! j) = d"
    and "j < length df' \<Longrightarrow> fst (df' ! j) = family_name \<Longrightarrow> snd (df' ! j) = f"
    and "j < length df' \<Longrightarrow> fst (df' ! j) = score_name \<Longrightarrow> snd (df' ! j) = s"
proof -
  show "map fst df'
      = map fst df @ filter (\<lambda>n. n \<notin> set (map fst df)) [density_name, family_name, score_name]"
    using names_distinct by (auto simp: df'_def assign_names)
  show "j < length df' \<Longrightarrow> fst (df' ! j) = score_name \<Longrightarrow> snd (df' ! j) = s"
    unfolding df'_def by (rule assign_named)
  show "j < length df' \<Longrightarrow> fst (df' ! j) = family_name \<Longrightarrow> snd (df' ! j) = f"
  proof -
    assume j: "j < length df'" and n: "fst (df' ! j) = family_name"
    let ?df2 = "assign (assign df density_name d) family_name f"
    have "j < length ?df2 \<and> df' ! j = ?df2 ! j"
      using j n names_distinct unfolding df'_def by (intro assign_other) auto
    with n show ?thesis by (auto intro: assign_named)
  qed
  show "j < length df' \<Longrightarrow> fst (df' ! j) = density_name \<Longrightarrow> snd (df' ! j) = d"
  proof -
    assume j: "j < length df'" and n: "fst (df' ! j) = density_name"
    let ?df1 = "assign df density_name d"
    let ?df2 = "assign ?df1 family_name f"
    have 2: "j < length ?df2 \<and> df' ! j = ?df2 ! j"
      using j n names_distinct unfolding df'_def by (intro assign_other) auto
    then have "j < length ?df1 \<and> ?df2 ! j = ?df1 ! j"
      using n names_distinct by (intro assign_other) auto
    with 2 n show ?thesis by (auto intro: assign_named)
  qed
qed

subsection \<open>The claims\<close>

text \<open>
  C1, at a table whose first row has the highest density grade. The claim asks for
  \<open>20 * (0.6 * density_rank + 0.4 * family_rank)\<close> with the ranks taken in the label
  sequences: 84 for the first row (ranks 5 and 3) and 20 for the second (ranks 1 and 1).
  The script stores 20 and 40: \<^verbatim>\<open>pd.factorize\<close> numbers the labels in the order in which
  the column shows them. (Two ranks of 4 with weights 0.5 and 0.5 do give 80.)
\<close>

theorem vulnerability_score_by_first_appearance:
  "analyze_population_vulnerability batch_b =
     (None, batch_b @
        [(density_name, CatCol [Some ''very_high'', Some ''very_low'']),
         (family_name, CatCol [Some ''ordinary_family'', Some ''single_person'']),
         (score_name, NumCol [Some 20, Some 40])])
   \<and> rank_score_spec (Some ''very_high'') (Some ''ordinary_family'') = 84
   \<and> rank_score_spec (Some ''very_low'') (Some ''single_person'') = 20
   \<and> composite [0.5, 0.5] [4, 4] = 80"
  by code_simp

text \<open>
  C2, as the scripts have it. \<^verbatim>\<open>pd.cut\<close> never raises on the four fixed scales. The
  heat-wave scale, whose lowest edge is \<open>-inf\<close>, gives every finite value exactly one of its
  labels. The discomfort, family-structure and ultraviolet scales, whose lowest edge is 0,
  give every finite value above 0 exactly one of their labels and leave every value below 0
  without a grade (NaN).
\<close>

theorem grading_total_above_lowest_edge:
  assumes "0 < v" and "w < 0"
  shows "pd_cut x heat_bins heat_labels = Inr (map (cut_value heat_bins heat_labels False) x)
    \<and> pd_cut x discomfort_bins discomfort_labels
        = Inr (map (cut_value discomfort_bins discomfort_labels False) x)
    \<and> pd_cut x family_bins family_labels = Inr (map (cut_value family_bins family_labels False) x)
    \<and> pd_cut x uv_bins uv_labels = Inr (map (cut_value uv_bins uv_labels False) x)
    \<and> cut_value heat_bins heat_labels False (Some u) \<in> Some ` set heat_labels
    \<and> cut_value discomfort_bins discomfort_labels False (Some v) \<in> Some ` set discomfort_labels
    \<and> cut_value family_bins family_labels False (Some v) \<in> Some ` set family_labels
    \<and> cut_value uv_bins uv_labels False (Some v) \<in> Some ` set uv_labels
    \<and> cut_value discomfort_bins discomfort_labels False (Some w) = None
    \<and> cut_value family_bins family_labels False (Some w) = None
    \<and> cut_value uv_bins uv_labels False (Some w) = None"
  using assms pd_cut_heat [of x] pd_cut_discomfort [of x] pd_cut_family [of x] pd_cut_uv [of x]
    heat_graded [of u] discomfort_graded [of v] family_graded [of v] uv_graded [of v]
    below_zero_ungraded [of w]
  by blast

theorem grading_total_above_lowest_edge_witness:
  "(0::real) < 70 \<and> (- 2::real) < 0
    \<and> cut_value heat_bins heat_labels False (Some (- 40)) \<in> Some ` set heat_labels
    \<and> cut_value discomfort_bins discomfort_labels False (Some 70) \<in> Some ` set discomfort_labels
    \<and> cut_value family_bins family_labels False (Some 70) \<in> Some ` set family_labels
    \<and> cut_value uv_bins uv_labels False (Some 70) \<in> Some ` set uv_labels
    \<and> cut_value discomfort_bins discomfort_labels False (Some (- 2)) = None"
proof -
  have h1: "(0::real) < 70" by simp
  have h2: "(- 2::real) < 0" by simp
  show ?thesis
    using h1 h2 grading_total_above_lowest_edge [OF h1 h2, of "[]" "- 40"] by blast
qed

text \<open>
  The claim C2 as stated fails: a discomfort value of \<open>-1\<close> is finite, \<^verbatim>\<open>pd.cut\<close> returns
  without raising, and the value has no label.
\<close>

theorem discomfort_below_zero_unlabelled:
  "pd_cut [Some (- 1)] discomfort_bins discomfort_labels = Inr [None]"
  by code_simp

text \<open>
  C3, as the scripts have it. \<^verbatim>\<open>groupby(key)[value].sum()\<close> partitions the rows by key
  and sums the values of each partition; a key is in the result exactly when a row has it; the
  keys of the result are distinct and in ascending order (the first-seen keys, sorted). On the
  rows of the example the result is \<open>20 \<mapsto> 15, 30 \<mapsto> 7\<close>.
\<close>

theorem groupby_sum_keys_sorted:
  "sorted (map fst (groupby_sum rows)) \<and> distinct (map fst (groupby_sum rows))
   \<and> map fst (groupby_sum rows) = sort (first_seen_keys rows)
   \<and> map_of (groupby_sum rows) k =
       (if Some k \<in> fst ` set rows
        then Some (\<Sum>(k', v) \<leftarrow> rows.
                     if k' = Some k then (case v of Some r \<Rightarrow> r | None \<Rightarrow> 0) else 0)
        else None)
   \<and> groupby_sum [(Some ''20'', Some 10), (Some ''20'', Some 5), (Some ''30'', Some 7)]
       = [(''20'', 15), (''30'', 7)]"
proof -
  have keys: "map fst (groupby_sum rows) = sort (first_seen_keys rows)"
    by (simp add: groupby_sum_def first_seen_keys_def Let_def comp_def)
  have s: "sorted (map fst (groupby_sum rows))" by (simp add: keys)
  have d: "distinct (map fst (groupby_sum rows))"
    by (simp add: keys first_seen_keys_def distinct_unique)
  have m: "map_of (groupby_sum rows) k =
       (if Some k \<in> fst ` set rows
        then Some (\<Sum>(k', v) \<leftarrow> rows.
                     if k' = Some k then (case v of Some r \<Rightarrow> r | None \<Rightarrow> 0) else 0)
        else None)"
    by (simp add: groupby_sum_def Let_def map_of_keyed set_unique set_dropna group_sum_as_spec)
  have e: "groupby_sum [(Some ''20'', Some 10), (Some ''20'', Some 5), (Some ''30'', Some 7)]
       = [(''20'', 15), (''30'', 7)]"
    by code_simp
  from s d keys m e show ?thesis by blast
qed

text \<open>
  The claim C3 as stated fails: when the rows show key 30 before key 20, the result lists 20
  before 30, not the keys in first-seen order.
\<close>

theorem groupby_sum_not_first_seen_order:
  "map fst (groupby_sum [(Some ''30'', Some 7), (Some ''20'', Some 10)]) = [''20'', ''30'']
   \<and> first_seen_keys [(Some ''30'', Some 7), (Some ''20'', Some (10::real))] = [''30'', ''20'']"
  by code_simp

text \<open>
  C7. Classification is monotone: when \<^verbatim>\<open>pd.cut\<close> accepts a scale and grades two finite
  values \<open>v1 < v2\<close>, the position of the grade of \<open>v1\<close> in the label sequence is at most
  that of the grade of \<open>v2\<close>. A value without a grade has position 0; the scale ends at
  \<open>+inf\<close>, as every scale of the scripts does, or \<open>v2\<close> has a grade.
\<close>

theorem classification_monotone:
  assumes "pd_cut [Some v1, Some v2] bins labels = Inr [g1, g2]"
    and "v1 < v2"
    and "g2 \<noteq> None \<or> last bins = PosInf"
  shows "label_rank labels g1 \<le> label_rank labels g2"
proof -
  note d = pd_cut_InrD [OF assms(1)]
  have g1: "g1 = cut_value bins labels False (Some v1)"
    and g2: "g2 = cut_value bins labels False (Some v2)"
    using d(3) by simp_all
  have le: "searchsorted_left bins v1 \<le> searchsorted_left bins v2"
    using assms(2) by (simp add: searchsorted_left_mono)
  have inside: "searchsorted_left bins v2 \<noteq> length bins"
    using assms(3)
  proof
    assume "g2 \<noteq> None"
    then show ?thesis by (auto simp: g2 cut_value_def)
  next
    assume l: "last bins = PosInf"
    have "bins \<noteq> []" using d(2) by auto
    then have "length (takeWhile (\<lambda>b. edge_below b v2) bins) < length bins"
      by (rule takeWhile_stops_before_last) (simp add: l)
    then show ?thesis by (simp add: searchsorted_left_def)
  qed
  with le searchsorted_left_le [of bins v2]
  have "searchsorted_left bins v1 \<noteq> length bins" by linarith
  with inside le show ?thesis
    by (simp add: g1 g2 rank_cut_value [OF d(1) d(2)])
qed

theorem classification_monotone_witness:
  "pd_cut [Some 26, Some 33] heat_bins heat_labels = Inr [Some ''caution'', Some ''danger'']
   \<and> (26::real) < 33 \<and> last heat_bins = PosInf
   \<and> label_rank heat_labels (Some ''caution'') \<le> label_rank heat_labels (Some ''danger'')"
proof -
  have h1: "pd_cut [Some 26, Some 33] heat_bins heat_labels
      = Inr [Some ''caution'', Some ''danger'']"
    by code_simp
  have h2: "(26::real) < 33" by simp
  have h3: "Some ''danger'' \<noteq> None \<or> last heat_bins = PosInf" by simp
  show ?thesis
    using h1 h2 classification_monotone [OF h1 h2 h3] by (simp add: heat_bins_def)
qed

text \<open>
  C4, at a column in which five of six values are equal. The six quantile edges are
  100, 100, 100, 100, 100, 200; \<^verbatim>\<open>duplicates='drop'\<close> leaves the two edges 100 and 200,
  one bin, and the five labels no longer fit: \<^verbatim>\<open>pd.qcut\<close> raises ValueError instead of
  collapsing the scale, and the analysis stops with the table as it was.
\<close>

theorem qcut_repeated_edges_raises:
  "quantile_edges [Some 100, Some 100, Some 100, Some 100, Some 100, Some 200] 5
     = [100, 100, 100, 100, 100, 200]
   \<and> unique (map Fin [100, 100, 100, 100, 100, 200]) = [Fin 100, Fin 200]
   \<and> qcut [Some 100, Some 100, Some 100, Some 100, Some 100, Some 200] 5 density_labels
     = Inl ValueError
   \<and> analyze_population_vulnerability batch_repeated = (Some ValueError, batch_repeated)"
  by code_simp


text \<open>
  C6, as the scripts have it. \<^verbatim>\<open>pd.qcut\<close> makes no check on the number of values. Given
  \<open>q\<close> distinct labels and \<open>q + 1\<close> strictly increasing quantile edges that run from the
  least to the greatest value of the column, the binning step returns the grades, however few
  values the column has, and every value present gets one of the labels.
\<close>

theorem qcut_grades_any_number_of_values:
  assumes "sorted_wrt (<) edges" and "length edges = q + 1" and "1 \<le> q"
    and "length labels = q" and "distinct labels"
    and "\<forall>v \<in> set (dropna x). hd edges \<le> v \<and> v \<le> last edges"
  shows "qcut_from_edges edges x labels = Inr (map (cut_value (map Fin edges) labels True) x)
     \<and> (\<forall>v \<in> set (dropna x).
           cut_value (map Fin edges) labels True (Some v) \<in> Some ` set labels)"
proof -
  have d: "distinct edges" using assms(1) by (simp add: strict_sorted_iff)
  have len: "length edges = length labels + 1" using assms(2,4) by simp
  have a: "qcut_from_edges edges x labels
      = Inr (map (cut_value (map Fin edges) labels True) x)"
    by (rule qcut_from_edges_accepts [OF d len assms(5)])
  have b: "\<forall>v \<in> set (dropna x).
      cut_value (map Fin edges) labels True (Some v) \<in> Some ` set labels"
  proof
    fix v assume "v \<in> set (dropna x)"
    with assms(6) have "hd edges \<le> v" "v \<le> last edges" by auto
    moreover have "2 \<le> length edges" using assms(2,3) by simp
    ultimately show "cut_value (map Fin edges) labels True (Some v) \<in> Some ` set labels"
      using len by (intro cut_value_in_range)
  qed
  from a b show ?thesis by blast
qed

theorem qcut_grades_any_number_of_values_witness:
  "sorted_wrt (<) [1, 6 / 5, 7 / 5, 8 / 5, 9 / 5, (2::real)]
   \<and> quantile_edges [Some 1, Some 2] 5 = [1, 6 / 5, 7 / 5, 8 / 5, 9 / 5, 2]
   \<and> length density_labels = 5 \<and> distinct density_labels
   \<and> qcut_from_edges [1, 6 / 5, 7 / 5, 8 / 5, 9 / 5, 2] [Some 1, Some 2] density_labels
       = Inr (map (cut_value (map Fin [1, 6 / 5, 7 / 5, 8 / 5, 9 / 5, 2]) density_labels True)
                [Some 1, Some 2])
   \<and> cut_value (map Fin [1, 6 / 5, 7 / 5, 8 / 5, 9 / 5, 2]) density_labels True (Some 2)
       \<in> Some ` set density_labels"
proof -
  have h1: "sorted_wrt (<) [1, 6 / 5, 7 / 5, 8 / 5, 9 / 5, (2::real)]" by simp
  have h2: "length [1, 6 / 5, 7 / 5, 8 / 5, 9 / 5, (2::real)] = 5 + 1" by simp
  have h3: "(1::nat) \<le> 5" by simp
  have h4: "length density_labels = 5" by (simp add: density_labels_def)
  have h5: "distinct density_labels" by (simp add: density_labels_def)
  have h6: "\<forall>v \<in> set (dropna [Some 1, Some (2::real)]).
      hd [1, 6 / 5, 7 / 5, 8 / 5, 9 / 5, (2::real)] \<le> v
      \<and> v \<le> last [1, 6 / 5, 7 / 5, 8 / 5, 9 / 5, (2::real)]"
    by simp
  have e: "quantile_edges [Some 1, Some 2] 5 = [1, 6 / 5, 7 / 5, 8 / 5, 9 / 5, 2]"
    by code_simp
  show ?thesis
    using h1 h4 h5 e qcut_grades_any_number_of_values [OF h1 h2 h3 h4 h5 h6]
    by simp
qed

text \<open>
  The claim C6 as stated fails: a column of two values, fewer than the five groups asked for,
  is graded without any error.
\<close>

theorem qcut_two_values_five_groups:
  "qcut [Some 1, Some 2] 5 density_labels = Inr [Some ''very_low'', Some ''very_high'']"
  by code_simp

text \<open>
  C8, as the scripts have it. \<^verbatim>\<open>analyze_population_vulnerability\<close> writes into the
  loaded table. Every column of the input whose name is not one of the three derived names stays
  at its position with the values it had, whether the call returns or raises. When the call
  returns, the column names are those of the input followed by the derived names the input did
  not have, and every column named as the density grade, the family-structure index or the
  vulnerability score holds the new grades or scores: the grades \<^verbatim>\<open>pd.qcut\<close> gives the
  population column, the grades \<^verbatim>\<open>pd.cut\<close> gives the household column (as the table
  has it after the first assignment), and the scores computed from the two.
\<close>

theorem analysis_writes_only_derived_columns:
  assumes "i < length pop_data"
    and "fst (pop_data ! i) \<notin> {density_name, family_name, score_name}"
  shows "i < length (snd (analyze_population_vulnerability pop_data))
     \<and> snd (analyze_population_vulnerability pop_data) ! i = pop_data ! i
     \<and> (fst (analyze_population_vulnerability pop_data) = None \<longrightarrow>
          {density_name, family_name, score_name}
            \<subseteq> fst ` set (snd (analyze_population_vulnerability pop_data)))
     \<and> (fst (analyze_population_vulnerability pop_data) = None \<longrightarrow>
          (\<exists>population avg density family.
             numeric (snd (pop_data ! 3)) = Inr population
           \<and> qcut population 5 density_labels = Inr density
           \<and> numeric (snd (assign pop_data density_name (CatCol density) ! 5)) = Inr avg
           \<and> family = map (cut_value family_bins family_labels False) avg
           \<and> map fst (snd (analyze_population_vulnerability pop_data))
               = map fst pop_data
                 @ filter (\<lambda>n. n \<notin> set (map fst pop_data))
                     [density_name, family_name, score_name]
           \<and> (\<forall>j < length (snd (analyze_population_vulnerability pop_data)).
                 (fst (snd (analyze_population_vulnerability pop_data) ! j) = density_name
                    \<longrightarrow> snd (snd (analyze_population_vulnerability pop_data) ! j)
                          = CatCol density)
               \<and> (fst (snd (analyze_population_vulnerability pop_data) ! j) = family_name
                    \<longrightarrow> snd (snd (analyze_population_vulnerability pop_data) ! j)
                          = CatCol family)
               \<and> (fst (snd (analyze_population_vulnerability pop_data) ! j) = score_name
                    \<longrightarrow> snd (snd (analyze_population_vulnerability pop_data) ! j)
                          = NumCol (map Some (vulnerability_scores density family))))))"
proof -
  let ?r = "analyze_population_vulnerability pop_data"
  have frame: "i < length (snd ?r) \<and> snd ?r ! i = pop_data ! i"
    using assms
    by (auto simp: analyze_population_vulnerability_def Let_def assign_nth assign_fst_nth
        length_assign split: sum.splits)
  have names: "fst ?r = None \<longrightarrow>
      {density_name, family_name, score_name} \<subseteq> fst ` set (snd ?r)"
    by (auto simp: analyze_population_vulnerability_def Let_def assign_has assign_keeps
        split: sum.splits)
  have stored: "fst ?r = None \<longrightarrow>
      (\<exists>population avg density family.
             numeric (snd (pop_data ! 3)) = Inr population
           \<and> qcut population 5 density_labels = Inr density
           \<and> numeric (snd (assign pop_data density_name (CatCol density) ! 5)) = Inr avg
           \<and> family = map (cut_value family_bins family_labels False) avg
           \<and> map fst (snd ?r)
               = map fst pop_data
                 @ filter (\<lambda>n. n \<notin> set (map fst pop_data))
                     [density_name, family_name, score_name]
           \<and> (\<forall>j < length (snd ?r).
                 (fst (snd ?r ! j) = density_name \<longrightarrow> snd (snd ?r ! j) = CatCol density)
               \<and> (fst (snd ?r ! j) = family_name \<longrightarrow> snd (snd ?r ! j) = CatCol family)
               \<and> (fst (snd ?r ! j) = score_name
                    \<longrightarrow> snd (snd ?r ! j)
                          = NumCol (map Some (vulnerability_scores density family)))))"
  proof
    assume ok: "fst ?r = None"
    then obtain population density avg where
      p: "numeric (snd (pop_data ! 3)) = Inr population"
      and q: "qcut population 5 density_labels = Inr density"
      and a: "numeric (snd (assign pop_data density_name (CatCol density) ! 5)) = Inr avg"
      and r: "snd ?r = assign (assign (assign pop_data density_name (CatCol density))
                family_name (CatCol (map (cut_value family_bins family_labels False) avg)))
                score_name
                (NumCol (map Some (vulnerability_scores density
                   (map (cut_value family_bins family_labels False) avg))))"
      by (auto simp: analyze_population_vulnerability_def Let_def iloc_def pd_cut_family
          split: sum.splits if_splits)
    show "\<exists>population avg density family.
             numeric (snd (pop_data ! 3)) = Inr population
           \<and> qcut population 5 density_labels = Inr density
           \<and> numeric (snd (assign pop_data density_name (CatCol density) ! 5)) = Inr avg
           \<and> family = map (cut_value family_bins family_labels False) avg
           \<and> map fst (snd ?r)
               = map fst pop_data
                 @ filter (\<lambda>n. n \<notin> set (map fst pop_data))
                     [density_name, family_name, score_name]
           \<and> (\<forall>j < length (snd ?r).
                 (fst (snd ?r ! j) = density_name \<longrightarrow> snd (snd ?r ! j) = CatCol density)
               \<and> (fst (snd ?r ! j) = family_name \<longrightarrow> snd (snd ?r ! j) = CatCol family)
               \<and> (fst (snd ?r ! j) = score_name
                    \<longrightarrow> snd (snd ?r ! j)
                          = NumCol (map Some (vulnerability_scores density family))))"
      using p q a three_assignments [where df = pop_data and d = "CatCol density"
          and f = "CatCol (map (cut_value family_bins family_labels False) avg)"
          and s = "NumCol (map Some (vulnerability_scores density
             (map (cut_value family_bins family_labels False) avg)))"]
      unfolding r by (intro exI [of _ population] exI [of _ avg] exI [of _ density]
          exI [of _ "map (cut_value family_bins family_labels False) avg"]) simp
  qed
  from frame names stored show ?thesis by blast
qed

theorem analysis_writes_only_derived_columns_witness:
  "3 < length batch_a \<and> fst (batch_a ! 3) = ''total_population''
   \<and> snd (analyze_population_vulnerability batch_a) ! 3 = batch_a ! 3
   \<and> fst (analyze_population_vulnerability batch_a) = None
   \<and> {density_name, family_name, score_name}
        \<subseteq> fst ` set (snd (analyze_population_vulnerability batch_a))
   \<and> map fst (snd (analyze_population_vulnerability batch_a))
        = map fst batch_a @ [density_name, family_name, score_name]"
proof -
  have h1: "3 < length batch_a" by (simp add: batch_a_def)
  have h2: "fst (batch_a ! 3) \<notin> {density_name, family_name, score_name}"
    by (simp add: batch_a_def density_name_def family_name_def score_name_def)
  have h3: "fst (analyze_population_vulnerability batch_a) = None" by code_simp
  have h4: "fst (batch_a ! 3) = ''total_population''" by (simp add: batch_a_def)
  have h5: "filter (\<lambda>n. n \<notin> set (map fst batch_a)) [density_name, family_name, score_name]
      = [density_name, family_name, score_name]"
    by (simp add: batch_a_def density_name_def family_name_def score_name_def)
  show ?thesis
    using h1 h3 h4 h5 analysis_writes_only_derived_columns [OF h1 h2] by auto
qed

text \<open>
  The claim C8 as stated fails: after the call the table is not the table it was; it has three
  more columns.
\<close>

theorem analysis_changes_input_table:
  "map fst (snd (analyze_population_vulnerability batch_a))
     = map fst batch_a @ [density_name, family_name, score_name]
   \<and> snd (analyze_population_vulnerability batch_a) \<noteq> batch_a"
  by code_simp

text \<open>
  C9. The composite score depends on the order of the rows. The tables \<open>batch_a\<close> and
  \<open>batch_b\<close> hold the same two observations in opposite orders and neither has a score
  column; the analysis stores the scores 20 and 40 in both, so the observation of Jongno-gu,
  first in one and second in the other, is assigned 20 in one and 40 in the other. The labels
  are numbered by first appearance: a label met again gets the code it got before (the third
  region of \<open>batch_c\<close> shares the family grade of the first, and scores 44), and the first
  label of a column has code 0. The environmental-risk score behaves alike: the reading of 36
  degrees, 50 percent humidity and ultraviolet index 8 scores 20 when it comes first and 40
  when it comes second.
\<close>

theorem score_depends_on_row_order:
  "(\<exists>A B i j sa sb. mset (rows_of A) = mset (rows_of B)
     \<and> i < length (rows_of A) \<and> j < length (rows_of B)
     \<and> rows_of A ! i = rows_of B ! j
     \<and> assigned_scores A = Some sa \<and> assigned_scores B = Some sb
     \<and> length sa = length (rows_of A) \<and> length sb = length (rows_of B)
     \<and> sa ! i \<noteq> sb ! j)
   \<and> analyze_population_vulnerability batch_a =
       (None, batch_a @
          [(density_name, CatCol [Some ''very_low'', Some ''very_high'']),
           (family_name, CatCol [Some ''single_person'', Some ''ordinary_family'']),
           (score_name, NumCol [Some 20, Some 40])])
   \<and> analyze_population_vulnerability batch_b =
       (None, batch_b @
          [(density_name, CatCol [Some ''very_high'', Some ''very_low'']),
           (family_name, CatCol [Some ''ordinary_family'', Some ''single_person'']),
           (score_name, NumCol [Some 20, Some 40])])
   \<and> mset (rows_of batch_a) = mset (rows_of batch_b)
   \<and> rows_of batch_a ! 0 = rows_of batch_b ! 1
   \<and> analyze_population_vulnerability batch_c =
       (None, batch_c @
          [(density_name, CatCol [Some ''very_low'', Some ''medium'', Some ''very_high'']),
           (family_name,
              CatCol [Some ''single_person'', Some ''ordinary_family'', Some ''single_person'']),
           (score_name, NumCol [Some 20, Some 40, Some 44])])
   \<and> factorize_codes [Some ''high'', Some ''low'', None, Some ''high'', Some ''low'']
       = [0, 1, - 1, 0, 1]
   \<and> factorize_codes (Some l # ls) ! 0 = 0
   \<and> environmental_risk_scores [Some 36, Some 20] [Some 50, Some 50] [Some 8, Some 1]
       = Inr [20, 40]
   \<and> environmental_risk_scores [Some 20, Some 36] [Some 50, Some 50] [Some 1, Some 8]
       = Inr [20, 40]
   \<and> environmental_risk_scores [Some 36, Some 20, Some 36] [Some 50, Some 50, Some 50]
         [Some 8, Some 1, Some 8]
       = Inr [20, 40, 20]"
proof -
  have 1: "mset (rows_of batch_a) = mset (rows_of batch_b)" by code_simp
  have 2: "0 < length (rows_of batch_a)" by code_simp
  have 3: "1 < length (rows_of batch_b)" by code_simp
  have 4: "rows_of batch_a ! 0 = rows_of batch_b ! 1" by code_simp
  have 5: "assigned_scores batch_a = Some [Some 20, Some 40]" by code_simp
  have 6: "assigned_scores batch_b = Some [Some 20, Some 40]" by code_simp
  have 7: "length [Some 20, Some (40::real)] = length (rows_of batch_a)"
    "length [Some 20, Some (40::real)] = length (rows_of batch_b)"
    by code_simp+
  have 8: "[Some 20, Some (40::real)] ! 0 \<noteq> [Some 20, Some 40] ! 1" by simp
  have ex: "\<exists>A B i j sa sb. mset (rows_of A) = mset (rows_of B)
     \<and> i < length (rows_of A) \<and> j < length (rows_of B)
     \<and> rows_of A ! i = rows_of B ! j
     \<and> assigned_scores A = Some sa \<and> assigned_scores B = Some sb
     \<and> length sa = length (rows_of A) \<and> length sb = length (rows_of B)
     \<and> sa ! i \<noteq> sb ! j"
    using 1 2 3 4 5 6 7 8 by blast
  have a: "analyze_population_vulnerability batch_a =
       (None, batch_a @
          [(density_name, CatCol [Some ''very_low'', Some ''very_high'']),
           (family_name, CatCol [Some ''single_person'', Some ''ordinary_family'']),
           (score_name, NumCol [Some 20, Some 40])])"
    by code_simp
  have b: "analyze_population_vulnerability batch_b =
       (None, batch_b @
          [(density_name, CatCol [Some ''very_high'', Some ''very_low'']),
           (family_name, CatCol [Some ''ordinary_family'', Some ''single_person'']),
           (score_name, NumCol [Some 20, Some 40])])"
    by code_simp
  have c: "analyze_population_vulnerability batch_c =
       (None, batch_c @
          [(density_name, CatCol [Some ''very_low'', Some ''medium'', Some ''very_high'']),
           (family_name,
              CatCol [Some ''single_person'', Some ''ordinary_family'', Some ''single_person'']),
           (score_name, NumCol [Some 20, Some 40, Some 44])])"
    by code_simp
  have f: "factorize_codes [Some ''high'', Some ''low'', None, Some ''high'', Some ''low'']
       = [0, 1, - 1, 0, 1]"
    by code_simp
  have g: "factorize_codes (Some l # ls) ! 0 = 0" by (simp add: factorize_codes_def)
  have e1: "environmental_risk_scores [Some 36, Some 20] [Some 50, Some 50] [Some 8, Some 1]
       = Inr [20, 40]"
    by code_simp
  have e2: "environmental_risk_scores [Some 20, Some 36] [Some 50, Some 50] [Some 1, Some 8]
       = Inr [20, 40]"
    by code_simp
  have e3: "environmental_risk_scores [Some 36, Some 20, Some 36] [Some 50, Some 50, Some 50]
         [Some 8, Some 1, Some 8]
       = Inr [20, 40, 20]"
    by code_simp
  from ex a b 1 4 c f g e1 e2 e3 show ?thesis by blast
qed

text \<open>
  C10. The four scripts compute the same discomfort index: for all finite temperature \<open>T\<close>
  and humidity \<open>H\<close> each of them yields \<open>0.81 T + 0.01 H (0.99 T - 14.3) + 46.3\<close>.
\<close>

theorem discomfort_scripts_agree:
  "discomfort_utf8 T H = discomfort_spec T H \<and>
   discomfort_korean T H = discomfort_spec T H \<and>
   discomfort_final T H = discomfort_spec T H \<and>
   discomfort_pipeline T H = discomfort_spec T H"
  by (simp add: discomfort_utf8_def discomfort_korean_def discomfort_final_def
      discomfort_pipeline_def discomfort_spec_def)

end
